theory Spec2Isabelle
  imports Main "HOL-Library.Sublist"
begin

section \<open>Azure Sentinel app (azure-sentinel/1.0.0/src/app.py)\<close>

text \<open>
  The app is a class with five actions, each a straight line of HTTP calls through one
  \<^verbatim>\<open>requests.Session\<close> kept in \<^verbatim>\<open>self.s\<close>. The model threads a state
  (the session's default headers and the list of requests issued so far) through every
  method, and a Python exception is the \<open>Inl\<close> of a sum. The remote servers, the JSON
  library and the UUID generator are not code of the app: they are fields of an
  environment the methods are run in.

  A Python \<^verbatim>\<open>str\<close> is a \<open>string\<close> here, one \<open>char\<close> per code point, so the model speaks
  of strings whose code points are below 256.
\<close>

subsection \<open>Python values\<close>

text \<open>
  What \<^verbatim>\<open>json.loads\<close> returns: \<^verbatim>\<open>None\<close>, a bool, an int, a str, a list or a dict
  (insertion ordered, so an association list whose keys are distinct). Floats play no part
  in the app and are left out.
\<close>

datatype json =
    JNull
  | JBool bool
  | JInt int
  | JString string
  | JArray "json list"
  | JObject "(string \<times> json) list"

datatype error =
    KeyError string
  | TypeError
  | AttributeError
  | IndexError
  | JSONDecodeError
  | RequestException

type_synonym 'a result = "error + 'a"

type_synonym kwargs = "string \<rightharpoonup> string"

subsection \<open>String methods\<close>

text \<open>\<^verbatim>\<open>str.isspace\<close> on one code point below 256.\<close>

definition is_space :: "char \<Rightarrow> bool" where
  "is_space c =
     (let n = (of_char c :: nat)
      in (9 \<le> n \<and> n \<le> 13) \<or> (28 \<le> n \<and> n \<le> 32) \<or> n = 133 \<or> n = 160)"

text \<open>\<^verbatim>\<open>s.strip()\<close>: leading and trailing whitespace removed.\<close>

definition strip :: "string \<Rightarrow> string" where
  "strip s = rev (dropWhile is_space (rev (dropWhile is_space s)))"

text \<open>\<^verbatim>\<open>s.strip(c)\<close> for a one-character argument: every leading and trailing \<open>c\<close> removed.\<close>

definition strip_char :: "char \<Rightarrow> string \<Rightarrow> string" where
  "strip_char c s = rev (dropWhile (\<lambda>x. x = c) (rev (dropWhile (\<lambda>x. x = c) s)))"

text \<open>
  \<^verbatim>\<open>s.split(c)\<close> for a one-character separator: one piece more than there are
  separators, empty pieces kept.
\<close>

fun split :: "char \<Rightarrow> string \<Rightarrow> string list" where
  "split c [] = [[]]"
| "split c (x # xs) =
     (if x = c then [] # split c xs
      else (let r = split c xs in (x # hd r) # tl r))"

text \<open>\<^verbatim>\<open>sep.join(xs)\<close>.\<close>

fun join :: "string \<Rightarrow> string list \<Rightarrow> string" where
  "join sep [] = []"
| "join sep [x] = x"
| "join sep (x # y # ys) = x @ sep @ join sep (y # ys)"

text \<open>\<^verbatim>\<open>s.lower()\<close> on code points below 256.\<close>

definition lower_char :: "char \<Rightarrow> char" where
  "lower_char c =
     (let n = (of_char c :: nat)
      in if (65 \<le> n \<and> n \<le> 90) \<or> (192 \<le> n \<and> n \<le> 222 \<and> n \<noteq> 215)
         then char_of (n + 32) else c)"

definition lower :: "string \<Rightarrow> string" where
  "lower s = map lower_char s"

text \<open>\<^verbatim>\<open>p in s\<close> for two strings: \<open>p\<close> occurs in \<open>s\<close> as a contiguous piece.\<close>

fun str_contains :: "string \<Rightarrow> string \<Rightarrow> bool" where
  "str_contains p [] = (p = [])"
| "str_contains p (x # xs) = (prefix p (x # xs) \<or> str_contains p xs)"

subsection \<open>Operations on parsed JSON\<close>

fun lookup :: "(string \<times> 'a) list \<Rightarrow> string \<Rightarrow> 'a option" where
  "lookup [] k = None"
| "lookup ((k', v) # kvs) k = (if k' = k then Some v else lookup kvs k)"

text \<open>\<^verbatim>\<open>d[k] = v\<close> on a dict: an existing key keeps its place, a new one goes last.\<close>

fun update :: "(string \<times> 'a) list \<Rightarrow> string \<Rightarrow> 'a \<Rightarrow> (string \<times> 'a) list" where
  "update [] k v = [(k, v)]"
| "update ((k', v') # kvs) k v =
     (if k' = k then (k, v) # kvs else (k', v') # update kvs k v)"

text \<open>\<^verbatim>\<open>x[k]\<close> with a string key \<open>k\<close>.\<close>

fun subscript :: "json \<Rightarrow> string \<Rightarrow> json result" where
  "subscript (JObject kvs) k =
     (case lookup kvs k of None \<Rightarrow> Inl (KeyError k) | Some v \<Rightarrow> Inr v)"
| "subscript _ k = Inl TypeError"

text \<open>\<^verbatim>\<open>x.get(k, d)\<close>: only a dict has the method.\<close>

fun get_method :: "json \<Rightarrow> string \<Rightarrow> json \<Rightarrow> json result" where
  "get_method (JObject kvs) k d =
     (case lookup kvs k of None \<Rightarrow> Inr d | Some v \<Rightarrow> Inr v)"
| "get_method _ k d = Inl AttributeError"

text \<open>\<^verbatim>\<open>x[k] = v\<close> with a string key \<open>k\<close>.\<close>

fun setitem :: "json \<Rightarrow> string \<Rightarrow> json \<Rightarrow> json result" where
  "setitem (JObject kvs) k v = Inr (JObject (update kvs k v))"
| "setitem _ k v = Inl TypeError"

text \<open>\<^verbatim>\<open>k in x\<close> with a string \<open>k\<close>.\<close>

fun contains :: "string \<Rightarrow> json \<Rightarrow> bool result" where
  "contains k (JObject kvs) = Inr (k \<in> set (map fst kvs))"
| "contains k (JArray xs) = Inr (JString k \<in> set xs)"
| "contains k (JString s) = Inr (str_contains k s)"
| "contains k _ = Inl TypeError"

text \<open>\<^verbatim>\<open>for item in x\<close>: the items the loop visits.\<close>

fun iterate :: "json \<Rightarrow> json list result" where
  "iterate (JArray xs) = Inr xs"
| "iterate (JObject kvs) = Inr (map (\<lambda>kv. JString (fst kv)) kvs)"
| "iterate (JString s) = Inr (map (\<lambda>c. JString [c]) s)"
| "iterate _ = Inl TypeError"

text \<open>\<^verbatim>\<open>x.strip('"')\<close>: only a str has the method.\<close>

fun strip_quotes :: "json \<Rightarrow> string result" where
  "strip_quotes (JString s) = Inr (strip_char (CHR 0x22) s)"
| "strip_quotes _ = Inl AttributeError"

subsection \<open>HTTP, session and environment\<close>

datatype verb = GET | POST | PUT

text \<open>
  One call of \<^verbatim>\<open>self.s.get\<close>, \<^verbatim>\<open>self.s.post\<close> or \<^verbatim>\<open>self.s.put\<close>: the arguments
  \<^verbatim>\<open>params=\<close>, \<^verbatim>\<open>headers=\<close>, \<^verbatim>\<open>data=\<close> and \<^verbatim>\<open>json=\<close>, and the session's own
  headers at the time of the call.
\<close>

record request =
  verb :: verb
  target :: string
  params :: "(string \<times> string) list"
  req_headers :: "(string \<times> string) list"
  form_data :: "(string \<times> string) list"
  json_payload :: "json option"
  sess_headers :: "(string \<times> string) list"

record response =
  status_code :: int
  res_text :: string

text \<open>
  The environment: \<open>respond\<close> is the remote side (it sees the requests made before, and
  may fail with an exception of \<^verbatim>\<open>requests\<close>), \<open>json_loads\<close> and \<open>json_dumps\<close> are
  \<^verbatim>\<open>json.loads\<close> and \<^verbatim>\<open>json.dumps\<close> (\<open>None\<close> when the text is not JSON), \<open>py_str\<close> is
  \<^verbatim>\<open>str()\<close> on a value that is not a string, \<open>uuid4\<close> gives the n-th random UUID as text,
  \<open>default_headers\<close> are the headers of a fresh \<^verbatim>\<open>requests.Session()\<close>.
\<close>

record env =
  respond :: "request list \<Rightarrow> request \<Rightarrow> response result"
  json_loads :: "string \<Rightarrow> json option"
  json_dumps :: "json \<Rightarrow> string"
  py_str :: "json \<Rightarrow> string"
  uuid4 :: "nat \<Rightarrow> string"
  default_headers :: "(string \<times> string) list"

text \<open>
  The state of the app object and of the world: \<open>sess\<close> is \<^verbatim>\<open>self.s\<close> (its headers;
  \<open>None\<close> while the attribute does not exist), \<open>trace\<close> the requests issued, oldest
  first, \<open>uuids_drawn\<close> the number of UUIDs generated.
\<close>

record state =
  sess :: "(string \<times> string) list option"
  trace :: "request list"
  uuids_drawn :: nat

type_synonym 'a action = "state \<Rightarrow> 'a result \<times> state"

definition ret :: "'a \<Rightarrow> 'a action" where
  "ret x = (\<lambda>st. (Inr x, st))"

definition lift :: "'a result \<Rightarrow> 'a action" where
  "lift r = (\<lambda>st. (r, st))"

text \<open>Sequencing: an exception of the first part ends the whole, the state kept.\<close>

definition seq :: "'a action \<Rightarrow> ('a \<Rightarrow> 'b action) \<Rightarrow> 'b action" where
  "seq m f = (\<lambda>st. case m st of (Inl e, st') \<Rightarrow> (Inl e, st') | (Inr x, st') \<Rightarrow> f x st')"

text \<open>\<^verbatim>\<open>kwargs[k]\<close> and \<^verbatim>\<open>kwargs.get(k, d)\<close>.\<close>

definition item :: "kwargs \<Rightarrow> string \<Rightarrow> string result" where
  "item kw k = (case kw k of None \<Rightarrow> Inl (KeyError k) | Some v \<Rightarrow> Inr v)"

definition get_default :: "kwargs \<Rightarrow> string \<Rightarrow> string \<Rightarrow> string" where
  "get_default kw k d = (case kw k of None \<Rightarrow> d | Some v \<Rightarrow> v)"

text \<open>A value inside an f-string: a str as it is, anything else through \<^verbatim>\<open>str()\<close>.\<close>

definition py_format :: "env \<Rightarrow> json \<Rightarrow> string" where
  "py_format env v = (case v of JString s \<Rightarrow> s | _ \<Rightarrow> py_str env v)"

text \<open>\<^verbatim>\<open>res.json()\<close>.\<close>

definition res_json :: "env \<Rightarrow> response \<Rightarrow> json result" where
  "res_json env res =
     (case json_loads env (res_text res) of None \<Rightarrow> Inl JSONDecodeError | Some j \<Rightarrow> Inr j)"

definition mk_request ::
  "verb \<Rightarrow> string \<Rightarrow> (string \<times> string) list \<Rightarrow> (string \<times> string) list \<Rightarrow>
   (string \<times> string) list \<Rightarrow> json option \<Rightarrow> (string \<times> string) list \<Rightarrow> request" where
  "mk_request m u ps hs d j sh =
     \<lparr>verb = m, target = u, params = ps, req_headers = hs, form_data = d,
      json_payload = j, sess_headers = sh\<rparr>"

text \<open>
  A call through \<^verbatim>\<open>self.s\<close>: AttributeError when the attribute is not there, else
  the request is recorded and the remote side answers or the call raises.
\<close>

definition send ::
  "env \<Rightarrow> verb \<Rightarrow> string \<Rightarrow> (string \<times> string) list \<Rightarrow> (string \<times> string) list \<Rightarrow>
   (string \<times> string) list \<Rightarrow> json option \<Rightarrow> response action" where
  "send env m u ps hs d j =
     (\<lambda>st. case sess st of
        None \<Rightarrow> (Inl AttributeError, st)
      | Some sh \<Rightarrow>
          (respond env (trace st) (mk_request m u ps hs d j sh),
           st\<lparr>trace := trace st @ [mk_request m u ps hs d j sh]\<rparr>))"

definition set_session :: "(string \<times> string) list \<Rightarrow> unit action" where
  "set_session h = (\<lambda>st. (Inr (), st\<lparr>sess := Some h\<rparr>))"

subsection \<open>The app\<close>

definition azure_url :: string where
  "azure_url = ''https://management.azure.com''"

record auth_result =
  success :: bool
  message :: string

definition auth_url :: "string \<Rightarrow> string" where
  "auth_url tenant_id =
     ''https://login.microsoftonline.com/'' @ tenant_id @ ''/oauth2/v2.0/token''"

definition auth_data :: "string \<Rightarrow> string \<Rightarrow> (string \<times> string) list" where
  "auth_data client_id client_secret =
     [(''grant_type'', ''client_credentials''),
      (''client_id'', client_id),
      (''client_secret'', client_secret),
      (''scope'', azure_url @ ''/.default'')]"

definition auth_headers :: "(string \<times> string) list" where
  "auth_headers =
     [(''Content-Type'', ''application/x-www-form-urlencoded''),
      (''cache-control'', ''no-cache'')]"

text \<open>
  \<^verbatim>\<open>authenticate\<close>. On a status other than 200 the argument of the logging call,
  \<^verbatim>\<open>res.json()\<close>, is evaluated before the failure result is returned.
\<close>

definition authenticate :: "env \<Rightarrow> string \<Rightarrow> string \<Rightarrow> string \<Rightarrow> auth_result action" where
  "authenticate env tenant_id client_id client_secret =
     seq (set_session (default_headers env)) (\<lambda>_.
     seq (send env POST (auth_url tenant_id) [] auth_headers
            (auth_data client_id client_secret) None) (\<lambda>res.
     if status_code res \<noteq> 200 then
       seq (lift (res_json env res)) (\<lambda>_.
       ret \<lparr>success = False, message = res_text res\<rparr>)
     else
       seq (lift (res_json env res)) (\<lambda>body.
       seq (lift (get_method body ''access_token'' JNull)) (\<lambda>access_token.
       seq (set_session
              [(''Authorization'', ''Bearer '' @ py_format env access_token),
               (''cache-control'', ''no-cache'')]) (\<lambda>_.
       ret \<lparr>success = True, message = res_text res\<rparr>)))))"

text \<open>\<^verbatim>\<open>extract_entities\<close> and \<^verbatim>\<open>extract_comments\<close>: a status other than 200 is only logged.\<close>

definition extract_entities :: "env \<Rightarrow> string \<Rightarrow> json action" where
  "extract_entities env incident_uri =
     seq (send env POST (azure_url @ incident_uri @ ''/entities'')
            [(''api-version'', ''2019-01-01-preview'')] [] [] None) (\<lambda>res.
     seq (lift (res_json env res)) (\<lambda>body.
     lift (get_method body ''entities'' (JArray []))))"

definition extract_comments :: "env \<Rightarrow> string \<Rightarrow> json action" where
  "extract_comments env incident_uri =
     seq (send env GET (azure_url @ incident_uri @ ''/comments'')
            [(''api-version'', ''2020-01-01'')] [] [] None) (\<lambda>res.
     seq (lift (res_json env res)) (\<lambda>body.
     lift (get_method body ''value'' (JArray []))))"

text \<open>
  \<^verbatim>\<open>incident[key] = await extract(incident["id"])\<close>: the right-hand side first, then
  the assignment.
\<close>

definition enrich :: "env \<Rightarrow> string \<Rightarrow> (string \<Rightarrow> json action) \<Rightarrow> json \<Rightarrow> json action" where
  "enrich env key extract incident =
     seq (lift (subscript incident ''id'')) (\<lambda>i.
     seq (extract (py_format env i)) (\<lambda>v.
     lift (setitem incident key v)))"

text \<open>The loop \<^verbatim>\<open>for incident in incidents\<close> over the items, each updated in place.\<close>

fun enrich_all ::
  "env \<Rightarrow> string \<Rightarrow> (string \<Rightarrow> json action) \<Rightarrow> json list \<Rightarrow> json list action" where
  "enrich_all env key extract [] st = (Inr [], st)"
| "enrich_all env key extract (incident # rest) st =
     (case enrich env key extract incident st of
        (Inl e, st') \<Rightarrow> (Inl e, st')
      | (Inr incident', st') \<Rightarrow>
          (case enrich_all env key extract rest st' of
             (Inl e, st'') \<Rightarrow> (Inl e, st'')
           | (Inr rest', st'') \<Rightarrow> (Inr (incident' # rest'), st'')))"

text \<open>
  The loop on whatever \<^verbatim>\<open>res.json()["value"]\<close> is: the elements of a list are updated;
  the keys of a dict and the characters of a str are strings, on which \<^verbatim>\<open>["id"]\<close>
  raises; anything else is not iterable.
\<close>

definition enrich_incidents ::
  "env \<Rightarrow> string \<Rightarrow> (string \<Rightarrow> json action) \<Rightarrow> json \<Rightarrow> json action" where
  "enrich_incidents env key extract incidents =
     (case incidents of
        JArray xs \<Rightarrow> seq (enrich_all env key extract xs) (\<lambda>xs'. ret (JArray xs'))
      | _ \<Rightarrow>
          seq (lift (iterate incidents)) (\<lambda>items.
          seq (enrich_all env key extract items) (\<lambda>_. ret incidents)))"

definition incidents_url :: "string \<Rightarrow> string \<Rightarrow> string \<Rightarrow> string" where
  "incidents_url subscription_id resource_group_name workspace_name =
     azure_url @ ''/subscriptions/'' @ subscription_id
       @ ''/resourceGroups/'' @ resource_group_name
       @ ''/providers/Microsoft.OperationalInsights/workspaces/'' @ workspace_name
       @ ''/providers/Microsoft.SecurityInsights/incidents''"

text \<open>\<^verbatim>\<open>f"properties/status eq '{x.strip()}'"\<close>.\<close>

definition status_clause :: "string \<Rightarrow> string" where
  "status_clause x = ''properties/status eq '' @ [CHR 0x27] @ strip x @ [CHR 0x27]"

text \<open>
  Lines 86 to 99 of \<^verbatim>\<open>get_incidents\<close>: the value of the variable \<^verbatim>\<open>query_filter\<close>
  when the request is made. The second branch builds \<^verbatim>\<open>status_filters\<close> again and
  does not use it.
\<close>

definition query_filter :: "kwargs \<Rightarrow> string result" where
  "query_filter kw =
     (case item kw ''status'' of
        Inl e \<Rightarrow> Inl e
      | Inr status \<Rightarrow>
          (let query_filter =
             (if status \<noteq> []
              then (let status_filters = map status_clause (split (CHR '','') status)
                    in ''( '' @ join '' or '' status_filters @ '' )'')
              else [])
           in case item kw ''last_modified'' of
                Inl e \<Rightarrow> Inl e
              | Inr last_modified \<Rightarrow>
                  if last_modified \<noteq> []
                  then (let status_filters = map status_clause (split (CHR '','') status)
                        in Inr (query_filter @ '' and (properties/lastModifiedTimeUtc ge ''
                                  @ last_modified @ ''Z)''))
                  else Inr query_filter))"

text \<open>What an action returns: a str, or the dict \<^verbatim>\<open>{"error": ...}\<close>.\<close>

datatype retval = Text string | Dict "(string \<times> json) list"

definition api_version :: "(string \<times> string) list" where
  "api_version = [(''api-version'', ''2020-01-01'')]"

definition get_incidents :: "env \<Rightarrow> kwargs \<Rightarrow> retval action" where
  "get_incidents env kw =
     seq (lift (item kw ''tenant_id'')) (\<lambda>tenant_id.
     seq (lift (item kw ''client_id'')) (\<lambda>client_id.
     seq (lift (item kw ''client_secret'')) (\<lambda>client_secret.
     seq (authenticate env tenant_id client_id client_secret) (\<lambda>auth.
     if \<not> success auth then ret (Dict [(''error'', JString (message auth))])
     else
       seq (lift (item kw ''subscription_id'')) (\<lambda>subscription_id.
       seq (lift (item kw ''resource_group_name'')) (\<lambda>resource_group_name.
       seq (lift (item kw ''workspace_name'')) (\<lambda>workspace_name.
       seq (lift (query_filter kw)) (\<lambda>query_filter.
       seq (send env GET
              (incidents_url subscription_id resource_group_name workspace_name)
              (if query_filter \<noteq> [] then update api_version ''$filter'' query_filter
               else api_version)
              [] [] None) (\<lambda>res.
       if status_code res \<noteq> 200 then ret (Text (res_text res))
       else
         seq (lift (res_json env res)) (\<lambda>body.
         seq (lift (subscript body ''value'')) (\<lambda>incidents.
         seq (if lower (get_default kw ''get_entities'' []) = ''true''
              then enrich_incidents env ''entities'' (extract_entities env) incidents
              else ret incidents) (\<lambda>incidents.
         seq (if lower (get_default kw ''get_comments'' []) = ''true''
              then enrich_incidents env ''comments'' (extract_comments env) incidents
              else ret incidents) (\<lambda>incidents.
         ret (Text (json_dumps env incidents)))))))))))))))"

definition no_incident_id :: string where
  \<open>no_incident_id = ''{"success": false, "error": "No incident ID supplied"}''\<close>

definition incident_url :: "string \<Rightarrow> string \<Rightarrow> string \<Rightarrow> string \<Rightarrow> string" where
  "incident_url subscription_id resource_group_name workspace_name incident_id =
     incidents_url subscription_id resource_group_name workspace_name @ ''/'' @ incident_id"

text \<open>\<^verbatim>\<open>get_incident\<close>: the value \<^verbatim>\<open>auth\<close> is bound and not read.\<close>

definition get_incident :: "env \<Rightarrow> kwargs \<Rightarrow> string action" where
  "get_incident env kw =
     (if kw ''incident_id'' = None \<or> kw ''incident_id'' = Some [] then ret no_incident_id
      else
        seq (lift (item kw ''tenant_id'')) (\<lambda>tenant_id.
        seq (lift (item kw ''client_id'')) (\<lambda>client_id.
        seq (lift (item kw ''client_secret'')) (\<lambda>client_secret.
        seq (authenticate env tenant_id client_id client_secret) (\<lambda>auth.
        seq (lift (item kw ''subscription_id'')) (\<lambda>subscription_id.
        seq (lift (item kw ''resource_group_name'')) (\<lambda>resource_group_name.
        seq (lift (item kw ''workspace_name'')) (\<lambda>workspace_name.
        seq (lift (item kw ''incident_id'')) (\<lambda>incident_id.
        seq (send env GET
               (incident_url subscription_id resource_group_name workspace_name incident_id)
               api_version [] [] None) (\<lambda>res.
        if status_code res \<noteq> 200 then ret (res_text res)
        else
          seq (lift (res_json env res)) (\<lambda>incident.
          seq (if lower (get_default kw ''get_entities'' []) = ''true''
               then enrich env ''entities'' (extract_entities env) incident
               else ret incident) (\<lambda>incident.
          seq (if lower (get_default kw ''get_comments'' []) = ''true''
               then enrich env ''comments'' (extract_comments env) incident
               else ret incident) (\<lambda>incident.
          ret (json_dumps env incident))))))))))))))"

text \<open>\<^verbatim>\<open>json.loads\<close> on a str.\<close>

definition loads :: "env \<Rightarrow> string \<Rightarrow> json result" where
  "loads env s = (case json_loads env s of None \<Rightarrow> Inl JSONDecodeError | Some j \<Rightarrow> Inr j)"

text \<open>\<^verbatim>\<open>xs[0]\<close> and \<^verbatim>\<open>xs[1]\<close> on a list.\<close>

definition index :: "'a list \<Rightarrow> nat \<Rightarrow> 'a result" where
  "index xs i = (if i < length xs then Inr (xs ! i) else Inl IndexError)"

text \<open>
  The dict \<^verbatim>\<open>close_data\<close> of \<^verbatim>\<open>close_incident\<close> as it is sent: the literal of lines
  161 to 170, then the key \<^verbatim>\<open>classificationReason\<close> added when the reason has a
  second part.
\<close>

definition close_data ::
  "string \<Rightarrow> json \<Rightarrow> json \<Rightarrow> string \<Rightarrow> string \<Rightarrow> string list \<Rightarrow> json" where
  "close_data etag title severity classification close_comment close_reason =
     JObject
       [(''etag'', JString etag),
        (''properties'',
         JObject
           (let properties =
              [(''title'', title),
               (''status'', JString ''Closed''),
               (''severity'', severity),
               (''classification'', JString classification),
               (''classificationComment'', JString close_comment)]
            in if length close_reason > 1
               then update properties ''classificationReason'' (JString (close_reason ! 1))
               else properties))]"

definition close_incident :: "env \<Rightarrow> kwargs \<Rightarrow> string action" where
  "close_incident env kw =
     seq (get_incident env kw) (\<lambda>fetched.
     seq (lift (loads env fetched)) (\<lambda>incident.
     seq (lift (contains ''error'' incident)) (\<lambda>has_error.
     if has_error then ret (json_dumps env incident)
     else
       seq (lift (item kw ''close_reason'')) (\<lambda>reason.
       let close_reason = map strip (split (CHR ''-'') reason) in
       seq (lift (get_method incident ''etag'' (JString []))) (\<lambda>etag.
       seq (lift (strip_quotes etag)) (\<lambda>etag.
       seq (lift (subscript incident ''properties'')) (\<lambda>properties.
       seq (lift (subscript properties ''title'')) (\<lambda>title.
       seq (lift (subscript incident ''properties'')) (\<lambda>properties.
       seq (lift (subscript properties ''severity'')) (\<lambda>severity.
       seq (lift (index close_reason 0)) (\<lambda>classification.
       seq (lift (item kw ''close_comment'')) (\<lambda>close_comment.
       seq (lift (item kw ''subscription_id'')) (\<lambda>subscription_id.
       seq (lift (item kw ''resource_group_name'')) (\<lambda>resource_group_name.
       seq (lift (item kw ''workspace_name'')) (\<lambda>workspace_name.
       seq (lift (item kw ''incident_id'')) (\<lambda>incident_id.
       seq (send env PUT
              (incident_url subscription_id resource_group_name workspace_name incident_id)
              api_version [] []
              (Some (close_data etag title severity classification close_comment
                       close_reason))) (\<lambda>res.
       if status_code res \<noteq> 200 then ret (res_text res)
       else
         seq (lift (res_json env res)) (\<lambda>result.
         seq (lift (setitem result ''success'' (JBool True))) (\<lambda>result.
         ret (json_dumps env result))))))))))))))))))))"

definition draw_uuid :: "env \<Rightarrow> string action" where
  "draw_uuid env =
     (\<lambda>st. (Inr (uuid4 env (uuids_drawn st)), st\<lparr>uuids_drawn := Suc (uuids_drawn st)\<rparr>))"


subsection \<open>Observing the requests\<close>

text \<open>
  \<open>adds P m\<close>: whatever the state, running \<open>m\<close> only appends requests to the trace,
  every appended request satisfies \<open>P\<close>, and a session that exists is not lost.
\<close>

definition adds :: "(request \<Rightarrow> bool) \<Rightarrow> 'a action \<Rightarrow> bool" where
  "adds P m =
     (\<forall>st. \<exists>new. trace (snd (m st)) = trace st @ new \<and> list_all P new \<and>
             (sess st \<noteq> None \<longrightarrow> sess (snd (m st)) \<noteq> None))"

text \<open>The request \<^verbatim>\<open>authenticate\<close> posts, and the headers it leaves on the session.\<close>

definition token_request :: "env \<Rightarrow> string \<Rightarrow> string \<Rightarrow> string \<Rightarrow> request" where
  "token_request env tenant_id client_id client_secret =
     mk_request POST (auth_url tenant_id) [] auth_headers (auth_data client_id client_secret)
       None (default_headers env)"

definition bearer_headers :: "string \<Rightarrow> (string \<times> string) list" where
  "bearer_headers token = [(''Authorization'', ''Bearer '' @ token), (''cache-control'', ''no-cache'')]"

subsection \<open>A test double\<close>

text \<open>
  A small remote side for running the methods on concrete inputs: the token endpoint
  accepts one secret and answers 401 with a JSON body otherwise, the tenant \<open>down\<close> sits
  behind a gateway that answers 503 with a plain-text body, reads need the bearer token,
  and \<open>mock_loads\<close> and \<open>mock_dumps\<close> are \<^verbatim>\<open>json.loads\<close> and \<^verbatim>\<open>json.dumps\<close> on the
  texts that occur.
\<close>

definition token_body :: string where
  \<open>token_body = ''{"access_token": "abc"}''\<close>

definition denied_body :: string where
  \<open>denied_body = ''{"error": "invalid_client"}''\<close>

definition unauthorized_body :: string where
  \<open>unauthorized_body = ''{"error": {"code": "AuthenticationFailed"}}''\<close>

definition incident_body :: string where
  \<open>incident_body =
     ''{"id": "/i/7", "etag": "'' @ [CHR 0x5C, CHR 0x22] @ ''e1'' @ [CHR 0x5C, CHR 0x22]
       @ ''", "properties": {"title": "Phish", "severity": "High"}}''\<close>

definition incident_json :: json where
  \<open>incident_json =
     JObject [(''id'', JString ''/i/7''), (''etag'', JString ''"e1"''),
              (''properties'',
               JObject [(''title'', JString ''Phish''), (''severity'', JString ''High'')])]\<close>

definition unauthorized_json :: json where
  "unauthorized_json =
     JObject [(''error'', JObject [(''code'', JString ''AuthenticationFailed'')])]"

definition mock_loads :: "string \<Rightarrow> json option" where
  \<open>mock_loads s =
     (if s = token_body then Some (JObject [(''access_token'', JString ''abc'')])
      else if s = denied_body then Some (JObject [(''error'', JString ''invalid_client'')])
      else if s = unauthorized_body then Some unauthorized_json
      else if s = incident_body then Some incident_json
      else if s = ''{"value": []}'' then Some (JObject [(''value'', JArray [])])
      else None)\<close>

definition mock_dumps :: "json \<Rightarrow> string" where
  "mock_dumps j =
     (if j = unauthorized_json then unauthorized_body
      else if j = incident_json then incident_body
      else if j = JArray [] then ''[]''
      else ''null'')"

definition mock_respond :: "request list \<Rightarrow> request \<Rightarrow> response result" where
  \<open>mock_respond tr r =
     (case verb r of
        POST \<Rightarrow>
          if target r = auth_url ''down''
          then Inr \<lparr>status_code = 503, res_text = ''Service Unavailable''\<rparr>
          else if lookup (form_data r) ''client_secret'' = Some ''s3cret''
          then Inr \<lparr>status_code = 200, res_text = token_body\<rparr>
          else Inr \<lparr>status_code = 401, res_text = denied_body\<rparr>
      | GET \<Rightarrow>
          if lookup (sess_headers r) ''Authorization'' \<noteq> Some ''Bearer abc''
          then Inr \<lparr>status_code = 401, res_text = unauthorized_body\<rparr>
          else if target r = incidents_url ''sub'' ''rg'' ''ws''
          then Inr \<lparr>status_code = 200, res_text = ''{"value": []}''\<rparr>
          else Inr \<lparr>status_code = 200, res_text = incident_body\<rparr>
      | PUT \<Rightarrow> Inr \<lparr>status_code = 200, res_text = incident_body\<rparr>)\<close>

definition mock_env :: env where
  "mock_env =
     \<lparr>respond = mock_respond, json_loads = mock_loads, json_dumps = mock_dumps,
      py_str = (\<lambda>_. ''None''), uuid4 = (\<lambda>_. ''00000000-0000-4000-8000-000000000000''),
      default_headers = [(''Accept'', ''*/*'')]\<rparr>"

definition mock_kwargs :: kwargs where
  "mock_kwargs =
     [''tenant_id'' \<mapsto> ''contoso'', ''client_id'' \<mapsto> ''app'',
      ''client_secret'' \<mapsto> ''s3cret'', ''subscription_id'' \<mapsto> ''sub'',
      ''resource_group_name'' \<mapsto> ''rg'', ''workspace_name'' \<mapsto> ''ws'',
      ''status'' \<mapsto> [], ''last_modified'' \<mapsto> []]"

definition fresh :: state where
  "fresh = \<lparr>sess = None, trace = [], uuids_drawn = 0\<rparr>"

definition mock_authed :: state where
  "mock_authed =
     \<lparr>sess = Some (bearer_headers ''abc''),
      trace = [token_request mock_env ''contoso'' ''app'' ''s3cret''], uuids_drawn = 0\<rparr>"

definition mock_denied :: state where
  "mock_denied =
     \<lparr>sess = Some [(''Accept'', ''*/*'')],
      trace = [token_request mock_env ''contoso'' ''app'' ''wrong''], uuids_drawn = 0\<rparr>"

text \<open>The \<^verbatim>\<open>properties\<close> of the JSON payload of a request, when it has them.\<close>

definition payload_properties :: "request \<Rightarrow> (string \<times> json) list option" where
  "payload_properties r =
     (case json_payload r of
        Some (JObject kvs) \<Rightarrow>
          (case lookup kvs ''properties'' of Some (JObject ps) \<Rightarrow> Some ps | _ \<Rightarrow> None)
      | _ \<Rightarrow> None)"

definition mock_refused :: state where
  "mock_refused =
     \<lparr>sess = Some [(''Accept'', ''*/*'')],
      trace = [token_request mock_env ''contoso'' ''app'' ''wrong'',
               mk_request GET (incident_url ''sub'' ''rg'' ''ws'' ''7'')
                 [(''api-version'', ''2020-01-01'')] [] [] None [(''Accept'', ''*/*'')]],
      uuids_drawn = 0\<rparr>"

definition mock_fetched :: state where
  "mock_fetched =
     \<lparr>sess = Some (bearer_headers ''abc''),
      trace = [token_request mock_env ''contoso'' ''app'' ''s3cret'',
               mk_request GET (incident_url ''sub'' ''rg'' ''ws'' ''7'')
                 [(''api-version'', ''2020-01-01'')] [] [] None (bearer_headers ''abc'')],
      uuids_drawn = 0\<rparr>"

definition close_kwargs :: "string \<Rightarrow> kwargs" where
  "close_kwargs reason =
     mock_kwargs(''incident_id'' \<mapsto> ''7'', ''close_reason'' \<mapsto> reason,
                 ''close_comment'' \<mapsto> ''benign'')"

section \<open>Properties\<close>

subsection \<open>Sequencing and the trace\<close>

lemma seq_ret [simp]: "seq (ret x) f = f x"
  by (simp add: seq_def ret_def)

lemma seq_lift_Inr [simp]: "seq (lift (Inr x)) f = f x"
  by (simp add: seq_def lift_def)

lemma seq_lift_Inl [simp]: "seq (lift (Inl e)) f st = (Inl e, st)"
  by (simp add: seq_def lift_def)

lemma seq_Inr: "m st = (Inr x, st') \<Longrightarrow> seq m f st = f x st'"
  by (simp add: seq_def)

lemma seq_Inl: "m st = (Inl e, st') \<Longrightarrow> seq m f st = (Inl e, st')"
  by (simp add: seq_def)

lemma adds_ret [intro!, simp]: "adds P (ret x)"
  by (simp add: adds_def ret_def)

lemma adds_lift [intro!, simp]: "adds P (lift r)"
  by (simp add: adds_def lift_def)

lemma adds_seq [intro!]:
  assumes "adds P m" and "\<And>x. adds P (f x)"
  shows "adds P (seq m f)"
  unfolding adds_def
proof
  fix st
  obtain r st' where m: "m st = (r, st')" by (cases "m st")
  from assms(1) have "\<exists>new. trace (snd (m st)) = trace st @ new \<and> list_all P new \<and>
      (sess st \<noteq> None \<longrightarrow> sess (snd (m st)) \<noteq> None)"
    by (simp add: adds_def)
  with m obtain n1 where n1: "trace st' = trace st @ n1" "list_all P n1"
    "sess st \<noteq> None \<longrightarrow> sess st' \<noteq> None"
    by auto
  show "\<exists>new. trace (snd (seq m f st)) = trace st @ new \<and> list_all P new \<and>
      (sess st \<noteq> None \<longrightarrow> sess (snd (seq m f st)) \<noteq> None)"
  proof (cases r)
    case (Inl e)
    with m n1 show ?thesis by (simp add: seq_def)
  next
    case (Inr x)
    from assms(2)[of x] have "\<exists>new. trace (snd (f x st')) = trace st' @ new \<and> list_all P new \<and>
        (sess st' \<noteq> None \<longrightarrow> sess (snd (f x st')) \<noteq> None)"
      by (simp add: adds_def)
    then obtain n2 where "trace (snd (f x st')) = trace st' @ n2" "list_all P n2"
      "sess st' \<noteq> None \<longrightarrow> sess (snd (f x st')) \<noteq> None"
      by auto
    with m n1 Inr show ?thesis by (simp add: seq_def)
  qed
qed

lemma adds_if [intro!]: "adds P m \<Longrightarrow> adds P n \<Longrightarrow> adds P (if b then m else n)"
  by simp

lemma adds_set_session [intro!, simp]: "adds P (set_session h)"
  by (simp add: adds_def set_session_def)

lemma adds_send [intro!]:
  "(\<And>sh. P (mk_request m u ps hs d j sh)) \<Longrightarrow> adds P (send env m u ps hs d j)"
  by (auto simp: adds_def send_def split: option.splits)

lemma adds_draw_uuid [intro!, simp]: "adds P (draw_uuid env)"
  by (simp add: adds_def draw_uuid_def)

lemma adds_authenticate:
  "(\<And>r. verb r = POST \<Longrightarrow> P r) \<Longrightarrow> adds P (authenticate env t c s)"
  unfolding authenticate_def by (intro adds_seq adds_if adds_send adds_set_session adds_ret adds_lift) (simp add: mk_request_def)

lemma adds_extract_entities:
  "(\<And>r. verb r = POST \<Longrightarrow> P r) \<Longrightarrow> adds P (extract_entities env u)"
  unfolding extract_entities_def by (intro adds_seq adds_send adds_lift) (simp add: mk_request_def)

lemma adds_extract_comments:
  "(\<And>r. verb r = GET \<Longrightarrow> P r) \<Longrightarrow> adds P (extract_comments env u)"
  unfolding extract_comments_def by (intro adds_seq adds_send adds_lift) (simp add: mk_request_def)

lemma adds_enrich:
  "(\<And>u. adds P (extract u)) \<Longrightarrow> adds P (enrich env key extract incident)"
  unfolding enrich_def by (intro adds_seq adds_lift) 

lemma adds_enrich_all:
  assumes "\<And>u. adds P (extract u)"
  shows "adds P (enrich_all env key extract xs)"
  unfolding adds_def
proof (induction xs)
  case Nil
  show ?case by simp
next
  case (Cons x xs)
  show ?case
  proof
    fix st
    obtain r st' where e: "enrich env key extract x st = (r, st')" by (cases "enrich env key extract x st")
    have "adds P (enrich env key extract x)" using assms by (rule adds_enrich)
    then have "\<exists>new. trace (snd (enrich env key extract x st)) = trace st @ new \<and> list_all P new \<and>
        (sess st \<noteq> None \<longrightarrow> sess (snd (enrich env key extract x st)) \<noteq> None)"
      by (simp add: adds_def)
    with e obtain n1 where n1: "trace st' = trace st @ n1" "list_all P n1"
      "sess st \<noteq> None \<longrightarrow> sess st' \<noteq> None"
      by auto
    show "\<exists>new. trace (snd (enrich_all env key extract (x # xs) st)) = trace st @ new \<and> list_all P new \<and>
        (sess st \<noteq> None \<longrightarrow> sess (snd (enrich_all env key extract (x # xs) st)) \<noteq> None)"
    proof (cases r)
      case (Inl err)
      with e n1 show ?thesis by simp
    next
      case (Inr x')
      from Cons obtain n2 where n2: "trace (snd (enrich_all env key extract xs st')) = trace st' @ n2" "list_all P n2"
        "sess st' \<noteq> None \<longrightarrow> sess (snd (enrich_all env key extract xs st')) \<noteq> None"
        by blast
      obtain r2 st2 where e2: "enrich_all env key extract xs st' = (r2, st2)" by (cases "enrich_all env key extract xs st'")
      with e Inr n1 n2 show ?thesis by (cases r2) auto
    qed
  qed
qed

lemma adds_enrich_incidents:
  assumes "\<And>u. adds P (extract u)"
  shows "adds P (enrich_incidents env key extract incidents)"
  unfolding enrich_incidents_def
  by (cases incidents) (auto intro!: adds_enrich_all assms)

lemma adds_get_incident:
  assumes "\<And>r. verb r \<noteq> PUT \<Longrightarrow> P r"
  shows "adds P (get_incident env kw)"
  unfolding get_incident_def
  by (intro adds_if adds_seq adds_ret adds_lift adds_send adds_authenticate adds_enrich adds_extract_entities adds_extract_comments assms) (simp_all add: mk_request_def)

lemma adds_prefix: "adds P m \<Longrightarrow> prefix (trace st) (trace (snd (m st)))"
  unfolding adds_def prefix_def by metis

lemma adds_session: "adds P m \<Longrightarrow> sess st \<noteq> None \<Longrightarrow> sess (snd (m st)) \<noteq> None"
  unfolding adds_def by metis

subsection \<open>authenticate\<close>

lemma authenticate_sent:
  "authenticate env t c s st = (r, st1) \<Longrightarrow>
     trace st1 = trace st @ [token_request env t c s] \<and> sess st1 \<noteq> None \<and>
     uuids_drawn st1 = uuids_drawn st"
  by (auto simp: authenticate_def seq_def set_session_def send_def ret_def lift_def
      token_request_def split: prod.splits sum.splits if_splits)

lemma authenticate_non200:
  assumes "respond env (trace st) (token_request env t c s) = Inr res"
    and "status_code res \<noteq> 200"
  shows "authenticate env t c s st =
     ((case json_loads env (res_text res) of
         None \<Rightarrow> Inl JSONDecodeError
       | Some j \<Rightarrow> Inr \<lparr>success = False, message = res_text res\<rparr>),
      st\<lparr>sess := Some (default_headers env), trace := trace st @ [token_request env t c s]\<rparr>)"
  using assms
  by (simp add: authenticate_def seq_def set_session_def send_def ret_def lift_def
      token_request_def res_json_def split: option.splits)

lemma authenticate_200:
  assumes "respond env (trace st) (token_request env t c s) = Inr res"
    and "status_code res = 200"
    and "json_loads env (res_text res) = Some (JObject kvs)"
  shows "authenticate env t c s st =
     (Inr \<lparr>success = True, message = res_text res\<rparr>,
      st\<lparr>sess := Some (bearer_headers
                (py_format env (case lookup kvs ''access_token'' of None \<Rightarrow> JNull | Some v \<Rightarrow> v))),
         trace := trace st @ [token_request env t c s]\<rparr>)"
  using assms
  by (simp add: authenticate_def seq_def set_session_def send_def ret_def lift_def
      token_request_def res_json_def bearer_headers_def split: option.splits)

lemma authenticate_success_iff:
  assumes "authenticate env t c s st = (Inr a, st1)"
  shows "success a \<longleftrightarrow> (\<exists>res. respond env (trace st) (token_request env t c s) = Inr res \<and> status_code res = 200)"
  using assms
  by (auto simp: authenticate_def seq_def set_session_def send_def ret_def lift_def
      token_request_def split: prod.splits sum.splits if_splits)

text \<open>
  C1. A token endpoint that answers with a status other than 200 makes \<^verbatim>\<open>authenticate\<close>
  return \<^verbatim>\<open>{"success": False, "message": res.text}\<close> only when the body is JSON
  (\<open>authenticate_non200\<close>): the logging call before the \<^verbatim>\<open>return\<close> evaluates
  \<^verbatim>\<open>res.json()\<close>. With the plain-text body \<^verbatim>\<open>Service Unavailable\<close> and status 503 the
  method raises and returns nothing.
\<close>

theorem authenticate_non_json_failure_raises:
  "authenticate mock_env ''down'' ''app'' ''s3cret'' fresh =
     (Inl JSONDecodeError,
      \<lparr>sess = Some [(''Accept'', ''*/*'')],
       trace = [token_request mock_env ''down'' ''app'' ''s3cret''], uuids_drawn = 0\<rparr>)"
  by (simp add: authenticate_def seq_def set_session_def send_def ret_def lift_def
      token_request_def res_json_def mock_env_def mock_respond_def mock_loads_def fresh_def
      mk_request_def token_body_def denied_body_def unauthorized_body_def incident_body_def)

subsection \<open>The filter of get_incidents\<close>

lemma split_not_Nil: "split c s \<noteq> []"
  by (induction s) (simp_all add: Let_def)

lemma split_no_sep: "c \<notin> set s \<Longrightarrow> split c s = [s]"
  by (induction s) (auto simp: Let_def)

lemma split_append: "c \<notin> set a \<Longrightarrow> split c (a @ c # b) = a # split c b"
  by (induction a) (auto simp: Let_def)

lemma split_join:
  "xs \<noteq> [] \<Longrightarrow> \<forall>x\<in>set xs. c \<notin> set x \<Longrightarrow> split c (join [c] xs) = xs"
proof (induction "[c]" xs rule: join.induct)
  case 1
  then show ?case by simp
next
  case (2 x)
  then show ?case by (simp add: split_no_sep)
next
  case (3 x y ys)
  then show ?case using split_append[of c x "join [c] (y # ys)"] by simp
qed

lemma seq_send_prefix:
  assumes "sess st = Some h" and "\<And>x. adds (\<lambda>_. True) (f x)"
  shows "prefix (trace st @ [mk_request m u ps hs d j h])
           (trace (snd (seq (send env m u ps hs d j) f st)))"
proof (cases "respond env (trace st) (mk_request m u ps hs d j h)")
  case (Inl e)
  with assms(1) show ?thesis by (simp add: seq_def send_def)
next
  case (Inr res)
  let ?st2 = "st\<lparr>trace := trace st @ [mk_request m u ps hs d j h]\<rparr>"
  from Inr assms(1) have "seq (send env m u ps hs d j) f st = f res ?st2"
    by (simp add: seq_def send_def)
  moreover have "prefix (trace ?st2) (trace (snd (f res ?st2)))"
    using assms(2) by (rule adds_prefix)
  ultimately show ?thesis by simp
qed

lemma seq_authenticate:
  "authenticate env t c s st = (Inr a, st1) \<Longrightarrow> seq (authenticate env t c s) f st = f a st1"
  by (simp add: seq_def)

lemma get_incidents_request:
  assumes kw: "kw ''tenant_id'' = Some t" "kw ''client_id'' = Some c"
      "kw ''client_secret'' = Some s" "kw ''subscription_id'' = Some sub"
      "kw ''resource_group_name'' = Some rg" "kw ''workspace_name'' = Some ws"
    and auth: "authenticate env t c s st = (Inr a, st1)" "success a"
    and qf: "query_filter kw = Inr q"
  shows "\<exists>h. sess st1 = Some h \<and>
           prefix (trace st1 @
                   [mk_request GET (incidents_url sub rg ws)
                      (if q \<noteq> [] then [(''api-version'', ''2020-01-01''), (''$filter'', q)]
                       else [(''api-version'', ''2020-01-01'')])
                      [] [] None h])
             (trace (snd (get_incidents env kw st)))"
proof -
  from authenticate_sent[OF auth(1)] obtain h where h: "sess st1 = Some h" by auto
  have ex: "\<And>u. adds (\<lambda>_. True) (extract_entities env u)"
    "\<And>u. adds (\<lambda>_. True) (extract_comments env u)"
    by (simp_all add: adds_extract_entities adds_extract_comments)
  have "prefix (trace st1 @
                   [mk_request GET (incidents_url sub rg ws)
                      (if q \<noteq> [] then update api_version ''$filter'' q else api_version)
                      [] [] None h])
             (trace (snd (get_incidents env kw st)))"
    unfolding get_incidents_def
    apply (simp add: item_def kw qf seq_authenticate[OF auth(1)] auth(2) split del: if_split)
    apply (rule seq_send_prefix[OF h])
    apply (intro adds_if adds_seq adds_ret adds_lift adds_enrich_incidents ex)
    done
  then show ?thesis using h by (auto simp: api_version_def)
qed

lemma status_clause_map: "map status_clause xs = map (\<lambda>x. ''properties/status eq '' @ [CHR 0x27] @ strip x @ [CHR 0x27]) xs"
  by (simp add: status_clause_def)

lemma query_filter_status:
  assumes "kw ''status'' = Some (join '','' statuses)" "join '','' statuses \<noteq> []"
    "\<forall>x\<in>set statuses. CHR '','' \<notin> set x" "kw ''last_modified'' = Some lm"
  shows "query_filter kw =
           Inr (''( '' @ join '' or '' (map (\<lambda>x. ''properties/status eq '' @ [CHR 0x27] @ strip x @ [CHR 0x27]) statuses) @ '' )''
                @ (if lm \<noteq> [] then '' and (properties/lastModifiedTimeUtc ge '' @ lm @ ''Z)'' else []))"
proof -
  from assms(2) have "statuses \<noteq> []" by auto
  with assms(3) have "split (CHR '','') (join '','' statuses) = statuses"
    by (simp add: split_join)
  with assms show ?thesis
    by (simp add: query_filter_def item_def status_clause_map)
qed

lemma query_filter_no_status:
  assumes "kw ''status'' = Some []" "kw ''last_modified'' = Some lm"
  shows "query_filter kw = Inr (if lm \<noteq> [] then '' and (properties/lastModifiedTimeUtc ge '' @ lm @ ''Z)'' else [])"
  using assms by (simp add: query_filter_def item_def)

lemma mock_authenticate:
  "authenticate mock_env ''contoso'' ''app'' ''s3cret'' fresh =
     (Inr \<lparr>success = True, message = token_body\<rparr>, mock_authed)"
proof -
  have r: "respond mock_env (trace fresh) (token_request mock_env ''contoso'' ''app'' ''s3cret'')
             = Inr \<lparr>status_code = 200, res_text = token_body\<rparr>"
    by (simp add: mock_env_def mock_respond_def token_request_def mk_request_def auth_url_def
        auth_data_def)
  have l: "json_loads mock_env token_body = Some (JObject [(''access_token'', JString ''abc'')])"
    by (simp add: mock_env_def mock_loads_def)
  show ?thesis
    using authenticate_200[OF r _ , of "[(''access_token'', JString ''abc'')]"] l
    by (simp add: py_format_def mock_authed_def fresh_def)
qed

lemma mock_kwargs_items:
  "mock_kwargs ''tenant_id'' = Some ''contoso''"
  "mock_kwargs ''client_id'' = Some ''app''"
  "mock_kwargs ''client_secret'' = Some ''s3cret''"
  "mock_kwargs ''subscription_id'' = Some ''sub''"
  "mock_kwargs ''resource_group_name'' = Some ''rg''"
  "mock_kwargs ''workspace_name'' = Some ''ws''"
  "mock_kwargs ''status'' = Some []"
  "mock_kwargs ''last_modified'' = Some []"
  by (simp_all add: mock_kwargs_def)

text \<open>
  C2. After a successful authentication, with \<^verbatim>\<open>last_modified\<close> empty and \<^verbatim>\<open>status\<close>
  the comma-separated list of the statuses, the first request of \<^verbatim>\<open>get_incidents\<close> is
  the GET of the incidents whose \<^verbatim>\<open>$filter\<close> is, in parentheses, the clauses
  \<^verbatim>\<open>properties/status eq '<status, stripped>'\<close> joined by \<^verbatim>\<open> or \<close>; for
  \<^verbatim>\<open>New, Active\<close> that is
  \<^verbatim>\<open>( properties/status eq 'New' or properties/status eq 'Active' )\<close>.
\<close>

theorem get_incidents_status_filter:
  assumes "kw ''tenant_id'' = Some t" "kw ''client_id'' = Some c"
      "kw ''client_secret'' = Some s" "kw ''subscription_id'' = Some sub"
      "kw ''resource_group_name'' = Some rg" "kw ''workspace_name'' = Some ws"
    and "authenticate env t c s st = (Inr a, st1)" "success a"
    and "kw ''status'' = Some (join '','' statuses)" "join '','' statuses \<noteq> []"
      "\<forall>x\<in>set statuses. CHR '','' \<notin> set x"
    and "kw ''last_modified'' = Some []"
  shows "\<exists>h F. sess st1 = Some h \<and>
           prefix (trace st1 @
                   [mk_request GET (incidents_url sub rg ws)
                      [(''api-version'', ''2020-01-01''), (''$filter'', F)] [] [] None h])
             (trace (snd (get_incidents env kw st))) \<and>
           F = ''( '' @ join '' or '' (map (\<lambda>x. ''properties/status eq '' @ [CHR 0x27] @ strip x @ [CHR 0x27]) statuses) @ '' )'' \<and>
           (statuses = [''New'', '' Active''] \<longrightarrow>
              F = ''( properties/status eq 'New' or properties/status eq 'Active' )'')"
proof -
  let ?F = "''( '' @ join '' or '' (map (\<lambda>x. ''properties/status eq '' @ [CHR 0x27] @ strip x @ [CHR 0x27]) statuses) @ '' )''"
  have qf: "query_filter kw = Inr ?F"
    using query_filter_status[OF assms(9-12)] by simp
  from get_incidents_request[OF assms(1-8) qf] obtain h where
    "sess st1 = Some h"
    "prefix (trace st1 @ [mk_request GET (incidents_url sub rg ws)
                      [(''api-version'', ''2020-01-01''), (''$filter'', ?F)] [] [] None h])
             (trace (snd (get_incidents env kw st)))"
    by auto
  moreover have "statuses = [''New'', '' Active''] \<longrightarrow>
              ?F = ''( properties/status eq 'New' or properties/status eq 'Active' )''"
    by (simp add: strip_def is_space_def)
  ultimately show ?thesis by blast
qed

theorem get_incidents_status_filter_witness:
  "prefix (trace mock_authed @
           [mk_request GET (incidents_url ''sub'' ''rg'' ''ws'')
              [(''api-version'', ''2020-01-01''),
               (''$filter'', ''( properties/status eq 'New' or properties/status eq 'Active' )'')]
              [] [] None (bearer_headers ''abc'')])
     (trace (snd (get_incidents mock_env (mock_kwargs(''status'' \<mapsto> ''New, Active'')) fresh)))"
proof -
  let ?kw = "mock_kwargs(''status'' \<mapsto> ''New, Active'')"
  have kw: "?kw ''tenant_id'' = Some ''contoso''" "?kw ''client_id'' = Some ''app''"
    "?kw ''client_secret'' = Some ''s3cret''" "?kw ''subscription_id'' = Some ''sub''"
    "?kw ''resource_group_name'' = Some ''rg''" "?kw ''workspace_name'' = Some ''ws''"
    by (simp_all add: mock_kwargs_items)
  have ok: "success \<lparr>success = True, message = token_body\<rparr>" by simp
  have status: "?kw ''status'' = Some (join '','' [''New'', '' Active''])"
    "join '','' [''New'', '' Active''] \<noteq> []"
    "\<forall>x\<in>set [''New'', '' Active'']. CHR '','' \<notin> set x"
    "?kw ''last_modified'' = Some []"
    by (simp_all add: mock_kwargs_items)
  from get_incidents_status_filter[OF kw mock_authenticate ok status]
  obtain h F where h: "sess mock_authed = Some h"
    and p: "prefix (trace mock_authed @
           [mk_request GET (incidents_url ''sub'' ''rg'' ''ws'')
              [(''api-version'', ''2020-01-01''), (''$filter'', F)] [] [] None h])
     (trace (snd (get_incidents mock_env ?kw fresh)))"
    and F: "F = ''( properties/status eq 'New' or properties/status eq 'Active' )''"
    by blast
  from h have "h = bearer_headers ''abc''" by (simp add: mock_authed_def)
  with p F show ?thesis by simp
qed

text \<open>
  C3. With both \<^verbatim>\<open>status\<close> and \<^verbatim>\<open>last_modified\<close> given, the \<^verbatim>\<open>$filter\<close> of the request is
  the status clause of C2 followed by
  \<^verbatim>\<open> and (properties/lastModifiedTimeUtc ge <last_modified>Z)\<close>.
\<close>

theorem get_incidents_status_and_last_modified:
  assumes "kw ''tenant_id'' = Some t" "kw ''client_id'' = Some c"
      "kw ''client_secret'' = Some s" "kw ''subscription_id'' = Some sub"
      "kw ''resource_group_name'' = Some rg" "kw ''workspace_name'' = Some ws"
    and "authenticate env t c s st = (Inr a, st1)" "success a"
    and "kw ''status'' = Some (join '','' statuses)" "join '','' statuses \<noteq> []"
      "\<forall>x\<in>set statuses. CHR '','' \<notin> set x"
    and "kw ''last_modified'' = Some lm" "lm \<noteq> []"
  shows "\<exists>h. sess st1 = Some h \<and>
           prefix (trace st1 @
                   [mk_request GET (incidents_url sub rg ws)
                      [(''api-version'', ''2020-01-01''),
                       (''$filter'',
                        (''( '' @ join '' or '' (map (\<lambda>x. ''properties/status eq '' @ [CHR 0x27] @ strip x @ [CHR 0x27]) statuses) @ '' )'')
                        @ '' and (properties/lastModifiedTimeUtc ge '' @ lm @ ''Z)'')]
                      [] [] None h])
             (trace (snd (get_incidents env kw st)))"
proof -
  let ?F = "(''( '' @ join '' or '' (map (\<lambda>x. ''properties/status eq '' @ [CHR 0x27] @ strip x @ [CHR 0x27]) statuses) @ '' )'')
                        @ '' and (properties/lastModifiedTimeUtc ge '' @ lm @ ''Z)''"
  have qf: "query_filter kw = Inr ?F"
    using query_filter_status[OF assms(9-12)] assms(13) by simp
  from get_incidents_request[OF assms(1-8) qf] show ?thesis by simp
qed

theorem get_incidents_status_and_last_modified_witness:
  "prefix (trace mock_authed @
           [mk_request GET (incidents_url ''sub'' ''rg'' ''ws'')
              [(''api-version'', ''2020-01-01''),
               (''$filter'', ''( properties/status eq 'New' or properties/status eq 'Active' ) and (properties/lastModifiedTimeUtc ge 2021-06-01T00:00:00Z)'')]
              [] [] None (bearer_headers ''abc'')])
     (trace (snd (get_incidents mock_env
        (mock_kwargs(''status'' \<mapsto> ''New, Active'', ''last_modified'' \<mapsto> ''2021-06-01T00:00:00''))
        fresh)))"
proof -
  let ?kw = "mock_kwargs(''status'' \<mapsto> ''New, Active'', ''last_modified'' \<mapsto> ''2021-06-01T00:00:00'')"
  have kw: "?kw ''tenant_id'' = Some ''contoso''" "?kw ''client_id'' = Some ''app''"
    "?kw ''client_secret'' = Some ''s3cret''" "?kw ''subscription_id'' = Some ''sub''"
    "?kw ''resource_group_name'' = Some ''rg''" "?kw ''workspace_name'' = Some ''ws''"
    by (simp_all add: mock_kwargs_items)
  have ok: "success \<lparr>success = True, message = token_body\<rparr>" by simp
  have status: "?kw ''status'' = Some (join '','' [''New'', '' Active''])"
    "join '','' [''New'', '' Active''] \<noteq> []"
    "\<forall>x\<in>set [''New'', '' Active'']. CHR '','' \<notin> set x"
    "?kw ''last_modified'' = Some ''2021-06-01T00:00:00''"
    "''2021-06-01T00:00:00'' \<noteq> []"
    by simp_all
  from get_incidents_status_and_last_modified[OF kw mock_authenticate ok status]
  obtain h where h: "sess mock_authed = Some h"
    and p: "prefix (trace mock_authed @
           [mk_request GET (incidents_url ''sub'' ''rg'' ''ws'')
              [(''api-version'', ''2020-01-01''),
               (''$filter'', (''( '' @ join '' or '' (map (\<lambda>x. ''properties/status eq '' @ [CHR 0x27] @ strip x @ [CHR 0x27]) [''New'', '' Active'']) @ '' )'')
                        @ '' and (properties/lastModifiedTimeUtc ge '' @ ''2021-06-01T00:00:00'' @ ''Z)'')] [] [] None h])
     (trace (snd (get_incidents mock_env ?kw fresh)))"
    by blast
  from h have "h = bearer_headers ''abc''" by (simp add: mock_authed_def)
  with p show ?thesis by (simp add: strip_def is_space_def)
qed

text \<open>
  C10. With \<^verbatim>\<open>status\<close> empty and \<^verbatim>\<open>last_modified\<close> given, the \<^verbatim>\<open>$filter\<close> of the request
  is \<^verbatim>\<open> and (properties/lastModifiedTimeUtc ge <last_modified>Z)\<close>: the empty
  \<^verbatim>\<open>query_filter\<close> is put in front, so the filter begins with \<^verbatim>\<open> and \<close>.
\<close>

theorem get_incidents_last_modified_only:
  assumes "kw ''tenant_id'' = Some t" "kw ''client_id'' = Some c"
      "kw ''client_secret'' = Some s" "kw ''subscription_id'' = Some sub"
      "kw ''resource_group_name'' = Some rg" "kw ''workspace_name'' = Some ws"
    and "authenticate env t c s st = (Inr a, st1)" "success a"
    and "kw ''status'' = Some []"
    and "kw ''last_modified'' = Some lm" "lm \<noteq> []"
  shows "\<exists>h. sess st1 = Some h \<and>
           prefix (trace st1 @
                   [mk_request GET (incidents_url sub rg ws)
                      [(''api-version'', ''2020-01-01''),
                       (''$filter'', '' and (properties/lastModifiedTimeUtc ge '' @ lm @ ''Z)'')]
                      [] [] None h])
             (trace (snd (get_incidents env kw st)))"
proof -
  have qf: "query_filter kw = Inr ('' and (properties/lastModifiedTimeUtc ge '' @ lm @ ''Z)'')"
    using query_filter_no_status[OF assms(9,10)] assms(11) by simp
  from get_incidents_request[OF assms(1-8) qf] show ?thesis by simp
qed

theorem get_incidents_last_modified_only_witness:
  "prefix (trace mock_authed @
           [mk_request GET (incidents_url ''sub'' ''rg'' ''ws'')
              [(''api-version'', ''2020-01-01''),
               (''$filter'', '' and (properties/lastModifiedTimeUtc ge 2021-06-01T00:00:00Z)'')]
              [] [] None (bearer_headers ''abc'')])
     (trace (snd (get_incidents mock_env
        (mock_kwargs(''last_modified'' \<mapsto> ''2021-06-01T00:00:00'')) fresh)))"
proof -
  let ?kw = "mock_kwargs(''last_modified'' \<mapsto> ''2021-06-01T00:00:00'')"
  have kw: "?kw ''tenant_id'' = Some ''contoso''" "?kw ''client_id'' = Some ''app''"
    "?kw ''client_secret'' = Some ''s3cret''" "?kw ''subscription_id'' = Some ''sub''"
    "?kw ''resource_group_name'' = Some ''rg''" "?kw ''workspace_name'' = Some ''ws''"
    by (simp_all add: mock_kwargs_items)
  have ok: "success \<lparr>success = True, message = token_body\<rparr>" by simp
  have rest: "?kw ''status'' = Some []"
    "?kw ''last_modified'' = Some ''2021-06-01T00:00:00''"
    "''2021-06-01T00:00:00'' \<noteq> []"
    by (simp_all add: mock_kwargs_items)
  from get_incidents_last_modified_only[OF kw mock_authenticate ok rest]
  obtain h where h: "sess mock_authed = Some h"
    and p: "prefix (trace mock_authed @
           [mk_request GET (incidents_url ''sub'' ''rg'' ''ws'')
              [(''api-version'', ''2020-01-01''),
               (''$filter'', '' and (properties/lastModifiedTimeUtc ge '' @ ''2021-06-01T00:00:00'' @ ''Z)'')] [] [] None h])
     (trace (snd (get_incidents mock_env ?kw fresh)))"
    by blast
  from h have "h = bearer_headers ''abc''" by (simp add: mock_authed_def)
  with p show ?thesis by simp
qed

text \<open>
  C4, as stated: when both \<^verbatim>\<open>status\<close> and \<^verbatim>\<open>last_modified\<close> are given, the filter built
  from the status is discarded from the final \<^verbatim>\<open>$filter\<close>. It is not: for the status
  \<^verbatim>\<open>New\<close> the filter built first is \<^verbatim>\<open>( properties/status eq 'New' )\<close>, and the final
  one begins with it.
\<close>

theorem query_filter_keeps_status_clause_example:
  "query_filter [''status'' \<mapsto> ''New'', ''last_modified'' \<mapsto> []]
     = Inr ''( properties/status eq 'New' )'' \<and>
   query_filter [''status'' \<mapsto> ''New'', ''last_modified'' \<mapsto> ''2021-06-01T00:00:00'']
     = Inr (''( properties/status eq 'New' )''
            @ '' and (properties/lastModifiedTimeUtc ge 2021-06-01T00:00:00Z)'')"
  by (simp add: query_filter_def item_def status_clause_def strip_def is_space_def)

text \<open>
  C4, amended: the \<^verbatim>\<open>last_modified\<close> branch builds the list \<^verbatim>\<open>status_filters\<close> again
  and does not use it; the final filter is the filter built before the branch (the one
  the same call has when \<^verbatim>\<open>last_modified\<close> is empty), kept whole, followed by
  \<^verbatim>\<open> and (properties/lastModifiedTimeUtc ge <last_modified>Z)\<close>.
\<close>

theorem query_filter_keeps_earlier_filter:
  assumes "query_filter (kw(''last_modified'' \<mapsto> [])) = Inr q" and "lm \<noteq> []"
  shows "query_filter (kw(''last_modified'' \<mapsto> lm))
           = Inr (q @ '' and (properties/lastModifiedTimeUtc ge '' @ lm @ ''Z)'')"
  using assms
  by (auto simp: query_filter_def item_def Let_def split: option.splits if_splits)

theorem query_filter_keeps_earlier_filter_witness:
  "query_filter ([''status'' \<mapsto> ''New, Active''](''last_modified'' \<mapsto> ''2021-06-01T00:00:00''))
     = Inr (''( properties/status eq 'New' or properties/status eq 'Active' )''
            @ '' and (properties/lastModifiedTimeUtc ge 2021-06-01T00:00:00Z)'')"
proof -
  have "query_filter ([''status'' \<mapsto> ''New, Active''](''last_modified'' \<mapsto> []))
          = Inr ''( properties/status eq 'New' or properties/status eq 'Active' )''"
    by (simp add: query_filter_def item_def status_clause_def strip_def is_space_def)
  from query_filter_keeps_earlier_filter[OF this, of "''2021-06-01T00:00:00''"]
  show ?thesis by simp
qed

subsection \<open>get_incident\<close>

text \<open>
  C5. Without an \<^verbatim>\<open>incident_id\<close>, or with an empty one, \<^verbatim>\<open>get_incident\<close> returns the
  literal text and leaves the state as it was: no session is made and no request is
  issued.
\<close>

theorem get_incident_without_id:
  assumes "kw ''incident_id'' = None \<or> kw ''incident_id'' = Some []"
  shows \<open>get_incident env kw st =
           (Inr ''{"success": false, "error": "No incident ID supplied"}'', st)\<close>
  using assms by (auto simp: get_incident_def ret_def no_incident_id_def)

theorem get_incident_without_id_witness:
  \<open>get_incident mock_env mock_kwargs fresh =
      (Inr ''{"success": false, "error": "No incident ID supplied"}'', fresh) \<and>
   get_incident mock_env (mock_kwargs(''incident_id'' \<mapsto> [])) fresh =
      (Inr ''{"success": false, "error": "No incident ID supplied"}'', fresh)\<close>
proof -
  have "mock_kwargs ''incident_id'' = None \<or> mock_kwargs ''incident_id'' = Some []"
    by (simp add: mock_kwargs_def)
  moreover have "(mock_kwargs(''incident_id'' \<mapsto> [])) ''incident_id'' = None \<or>
                 (mock_kwargs(''incident_id'' \<mapsto> [])) ''incident_id'' = Some []"
    by simp
  ultimately show ?thesis
    using get_incident_without_id[of mock_kwargs mock_env fresh]
      get_incident_without_id[of "mock_kwargs(''incident_id'' \<mapsto> [])" mock_env fresh]
    by blast
qed


lemma mock_authenticate_denied:
  "authenticate mock_env ''contoso'' ''app'' ''wrong'' fresh =
     (Inr \<lparr>success = False, message = denied_body\<rparr>, mock_denied)"
proof -
  have r: "respond mock_env (trace fresh) (token_request mock_env ''contoso'' ''app'' ''wrong'')
             = Inr \<lparr>status_code = 401, res_text = denied_body\<rparr>"
    by (simp add: mock_env_def mock_respond_def token_request_def mk_request_def auth_url_def
        auth_data_def)
  have l: "json_loads mock_env denied_body = Some (JObject [(''error'', JString ''invalid_client'')])"
    by (simp add: mock_env_def mock_loads_def token_body_def denied_body_def)
  show ?thesis
    using authenticate_non200[OF r] l
    by (simp add: mock_denied_def fresh_def mock_env_def)
qed



subsection \<open>close_incident\<close>

lemma seq_InrE:
  assumes "seq m f st = (Inr x, st1)"
  obtains y st' where "m st = (Inr y, st')" "f y st' = (Inr x, st1)"
  using assms by (auto simp: seq_def split: prod.splits sum.splits)

lemma lift_InrE:
  assumes "lift r st = (Inr y, st')"
  obtains "r = Inr y" "st' = st"
  using assms by (auto simp: lift_def)

lemma seq_session:
  assumes "seq m f st = (Inr x, st1)"
    and "\<And>y st'. m st = (Inr y, st') \<Longrightarrow> sess st' \<noteq> None"
    and "\<And>y. adds (\<lambda>_. True) (f y)"
  shows "\<exists>h. sess st1 = Some h"
proof -
  from assms(1) obtain y st' where m: "m st = (Inr y, st')" and f: "f y st' = (Inr x, st1)"
    by (rule seq_InrE)
  from assms(2)[OF m] have "sess st' \<noteq> None" .
  with adds_session[OF assms(3), of st' y] f show ?thesis by simp
qed

lemma get_incident_session:
  assumes "get_incident env kw st = (Inr x, st1)" "kw ''incident_id'' = Some i" "i \<noteq> []"
  shows "\<exists>h. sess st1 = Some h"
proof -
  have ex: "\<And>u. adds (\<lambda>_. True) (extract_entities env u)"
    "\<And>u. adds (\<lambda>_. True) (extract_comments env u)"
    by (simp_all add: adds_extract_entities adds_extract_comments)
  show ?thesis
    using assms unfolding get_incident_def
    apply (simp split del: if_split)
    apply (erule seq_InrE, erule lift_InrE)+
    apply (erule seq_session)
     apply (drule authenticate_sent, simp)
    apply (intro adds_if adds_seq adds_ret adds_lift adds_enrich adds_send ex)
    apply simp_all
    done
qed

lemma split_hd: "hd (split c s) = takeWhile (\<lambda>x. x \<noteq> c) s"
  by (induction s) (simp_all add: Let_def)


lemma index_split_0:
  "index (map f (split c s)) 0 = Inr (f (takeWhile (\<lambda>x. x \<noteq> c) s))"
proof -
  have "split c s \<noteq> []" by (rule split_not_Nil)
  then obtain w ws where w: "split c s = w # ws" by (cases "split c s") auto
  with split_hd[of c s] show ?thesis by (simp add: index_def)
qed

lemma seq_get_incident:
  "get_incident env kw st = (Inr x, st1) \<Longrightarrow> seq (get_incident env kw) f st = f x st1"
  by (simp add: seq_def)

lemma adds_nothing:
  assumes "adds (\<lambda>_. False) m"
  shows "trace (snd (m st)) = trace st"
proof -
  from assms obtain new where n: "trace (snd (m st)) = trace st @ new" "list_all (\<lambda>_. False) new"
    unfolding adds_def by blast
  from n(2) have "new = []" by (cases new) simp_all
  with n(1) show ?thesis by simp
qed

lemma seq_send_last:
  assumes "sess st = Some h" and "\<And>x. adds (\<lambda>_. False) (f x)"
  shows "trace (snd (seq (send env m u ps hs d j) f st)) = trace st @ [mk_request m u ps hs d j h]"
proof (cases "respond env (trace st) (mk_request m u ps hs d j h)")
  case (Inl e)
  with assms(1) show ?thesis by (simp add: seq_def send_def)
next
  case (Inr res)
  let ?st2 = "st\<lparr>trace := trace st @ [mk_request m u ps hs d j h]\<rparr>"
  from Inr assms(1) have "seq (send env m u ps hs d j) f st = f res ?st2"
    by (simp add: seq_def send_def)
  moreover from assms(2)[of res] have "trace (snd (f res ?st2)) = trace ?st2"
    by (rule adds_nothing)
  ultimately show ?thesis by simp
qed

lemma close_incident_put:
  assumes fetched: "get_incident env kw st = (Inr fetched, st1)"
    and inc: "json_loads env fetched = Some (JObject inc)" "''error'' \<notin> fst ` set inc"
    and kw: "kw ''incident_id'' = Some i" "i \<noteq> []" "kw ''close_reason'' = Some reason"
      "kw ''close_comment'' = Some comment" "kw ''subscription_id'' = Some sub"
      "kw ''resource_group_name'' = Some rg" "kw ''workspace_name'' = Some ws"
    and etag: "lookup inc ''etag'' = Some (JString etag) \<or> lookup inc ''etag'' = None \<and> etag = []"
    and props: "lookup inc ''properties'' = Some props" "subscript props ''title'' = Inr title"
      "subscript props ''severity'' = Inr severity"
  shows "\<exists>h. sess st1 = Some h \<and>
           trace (snd (close_incident env kw st)) =
             trace st1 @
             [mk_request PUT (incident_url sub rg ws i) [(''api-version'', ''2020-01-01'')] [] []
                (Some (close_data (strip_char (CHR 0x22) etag) title severity
                         (strip (takeWhile (\<lambda>x. x \<noteq> CHR ''-'') reason)) comment
                         (map strip (split (CHR ''-'') reason))))
                h]"
proof -
  from get_incident_session[OF fetched kw(1,2)] obtain h where h: "sess st1 = Some h" by auto
  have e: "(case lookup inc ''etag'' of None \<Rightarrow> Inr (JString []) | Some x \<Rightarrow> Inr x)
             = (Inr (JString etag) :: json result)"
    using etag by auto
  have "trace (snd (close_incident env kw st)) =
             trace st1 @
             [mk_request PUT (incident_url sub rg ws i) api_version [] []
                (Some (close_data (strip_char (CHR 0x22) etag) title severity
                         (strip (takeWhile (\<lambda>x. x \<noteq> CHR ''-'') reason)) comment
                         (map strip (split (CHR ''-'') reason))))
                h]"
    unfolding close_incident_def
    apply (simp add: seq_get_incident[OF fetched] loads_def inc item_def kw e props
        index_split_0 Let_def split del: if_split)
    apply (rule seq_send_last[OF h])
    apply (intro adds_if adds_seq adds_ret adds_lift)
    done
  with h show ?thesis by (simp add: api_version_def)
qed

lemma mock_get_incident_refused:
  "get_incident mock_env (mock_kwargs(''client_secret'' \<mapsto> ''wrong'', ''incident_id'' \<mapsto> ''7''))
     fresh = (Inr unauthorized_body, mock_refused)"
  unfolding get_incident_def
  apply (simp add: item_def mock_kwargs_items seq_authenticate[OF mock_authenticate_denied])
  apply (simp add: seq_def send_def mock_denied_def mock_env_def mock_respond_def mk_request_def
      ret_def mock_refused_def api_version_def token_request_def)
  done

lemma close_kwargs_items:
  "close_kwargs r ''tenant_id'' = Some ''contoso''"
  "close_kwargs r ''client_id'' = Some ''app''"
  "close_kwargs r ''client_secret'' = Some ''s3cret''"
  "close_kwargs r ''subscription_id'' = Some ''sub''"
  "close_kwargs r ''resource_group_name'' = Some ''rg''"
  "close_kwargs r ''workspace_name'' = Some ''ws''"
  "close_kwargs r ''incident_id'' = Some ''7''"
  "close_kwargs r ''close_reason'' = Some r"
  "close_kwargs r ''close_comment'' = Some ''benign''"
  "close_kwargs r ''get_entities'' = None"
  "close_kwargs r ''get_comments'' = None"
  by (simp_all add: close_kwargs_def mock_kwargs_def)

lemma mock_loads_incident: "json_loads mock_env incident_body = Some incident_json"
  by (simp add: mock_env_def mock_loads_def incident_body_def token_body_def denied_body_def
      unauthorized_body_def)

lemma mock_dumps_incident: "json_dumps mock_env incident_json = incident_body"
  by (simp add: mock_env_def mock_dumps_def incident_json_def unauthorized_json_def)

lemma mock_send_get:
  "send mock_env GET (incident_url ''sub'' ''rg'' ''ws'' ''7'') api_version [] [] None mock_authed
     = (Inr \<lparr>status_code = 200, res_text = incident_body\<rparr>, mock_fetched)"
proof -
  have "incident_url ''sub'' ''rg'' ''ws'' ''7'' \<noteq> incidents_url ''sub'' ''rg'' ''ws''"
    by (simp add: incident_url_def)
  then show ?thesis
    by (simp add: send_def mock_authed_def mock_fetched_def mock_env_def mock_respond_def
        mk_request_def api_version_def bearer_headers_def)
qed

lemma mock_get_incident:
  "get_incident mock_env (close_kwargs r) fresh = (Inr incident_body, mock_fetched)"
  unfolding get_incident_def
  by (simp add: item_def close_kwargs_items mock_authenticate
      get_default_def lower_def seq_def mock_send_get res_json_def mock_loads_incident
      mock_dumps_incident lift_def ret_def)

text \<open>
  C8. When the text \<^verbatim>\<open>get_incident\<close> returned parses to a dict with the key
  \<^verbatim>\<open>error\<close>, \<^verbatim>\<open>close_incident\<close> returns \<^verbatim>\<open>json.dumps\<close> of that dict and stops in the
  state \<^verbatim>\<open>get_incident\<close> left: nothing is issued after it, and none of the requests
  \<^verbatim>\<open>get_incident\<close> issued is a PUT.
\<close>

theorem close_incident_error_passthrough:
  assumes "get_incident env kw st = (Inr fetched, st1)"
    and "json_loads env fetched = Some (JObject kvs)"
    and "''error'' \<in> fst ` set kvs"
  shows "close_incident env kw st = (Inr (json_dumps env (JObject kvs)), st1) \<and>
         (\<exists>new. trace st1 = trace st @ new \<and> (\<forall>r\<in>set new. verb r \<noteq> PUT))"
proof -
  have "close_incident env kw st = (Inr (json_dumps env (JObject kvs)), st1)"
    unfolding close_incident_def
    using assms(2,3) by (simp add: seq_get_incident[OF assms(1)] loads_def ret_def)
  moreover have "adds (\<lambda>r. verb r \<noteq> PUT) (get_incident env kw)"
    by (rule adds_get_incident)
  then obtain new where "trace (snd (get_incident env kw st)) = trace st @ new"
    "list_all (\<lambda>r. verb r \<noteq> PUT) new"
    unfolding adds_def by blast
  with assms(1) have "trace st1 = trace st @ new \<and> (\<forall>r\<in>set new. verb r \<noteq> PUT)"
    by (simp add: list_all_iff)
  ultimately show ?thesis by blast
qed

theorem close_incident_error_passthrough_witness:
  "close_incident mock_env (mock_kwargs(''client_secret'' \<mapsto> ''wrong'', ''incident_id'' \<mapsto> ''7''))
     fresh = (Inr unauthorized_body, mock_refused) \<and>
   list_all (\<lambda>r. verb r \<noteq> PUT) (trace mock_refused)"
proof -
  have l: "json_loads mock_env unauthorized_body
             = Some (JObject [(''error'', JObject [(''code'', JString ''AuthenticationFailed'')])])"
    by (simp add: mock_env_def mock_loads_def unauthorized_json_def token_body_def
        denied_body_def unauthorized_body_def)
  have k: "''error'' \<in> fst ` set [(''error'', JObject [(''code'', JString ''AuthenticationFailed'')])]"
    by simp
  have d: "json_dumps mock_env (JObject [(''error'', JObject [(''code'', JString ''AuthenticationFailed'')])])
             = unauthorized_body"
    by (simp add: mock_env_def mock_dumps_def unauthorized_json_def)
  from close_incident_error_passthrough[OF mock_get_incident_refused l k]
  have "close_incident mock_env (mock_kwargs(''client_secret'' \<mapsto> ''wrong'', ''incident_id'' \<mapsto> ''7''))
     fresh = (Inr unauthorized_body, mock_refused)"
    by (simp only: d)
  moreover have "list_all (\<lambda>r. verb r \<noteq> PUT) (trace mock_refused)"
    by (simp add: mock_refused_def token_request_def mk_request_def)
  ultimately show ?thesis by blast
qed





lemma mock_incident_loaded:
  \<open>json_loads mock_env incident_body =
     Some (JObject [(''id'', JString ''/i/7''), (''etag'', JString ''"e1"''),
                    (''properties'',
                     JObject [(''title'', JString ''Phish''), (''severity'', JString ''High'')])])\<close>
  using mock_loads_incident by (simp add: incident_json_def)


text \<open>
  C9, as stated: the payload's \<^verbatim>\<open>properties\<close> carry the etag. They do not: the payload
  sent for the incident of the test double has \<^verbatim>\<open>etag\<close> as a key of its own beside
  \<^verbatim>\<open>properties\<close>, and \<^verbatim>\<open>properties\<close> has no such key.
\<close>

theorem close_incident_etag_beside_properties_example:
  "json_payload (last (trace (snd (close_incident mock_env
       (close_kwargs ''FalsePositive-InaccurateData'') fresh))))
     = Some (JObject
         [(''etag'', JString ''e1''),
          (''properties'',
           JObject [(''title'', JString ''Phish''), (''status'', JString ''Closed''),
                    (''severity'', JString ''High''),
                    (''classification'', JString ''FalsePositive''),
                    (''classificationComment'', JString ''benign''),
                    (''classificationReason'', JString ''InaccurateData'')])]) \<and>
   map_option (\<lambda>ps. lookup ps ''etag'')
     (payload_properties (last (trace (snd (close_incident mock_env
        (close_kwargs ''FalsePositive-InaccurateData'') fresh))))) = Some None"
proof -
  let ?inc = \<open>[(''id'', JString ''/i/7''), (''etag'', JString ''"e1"''),
               (''properties'',
                JObject [(''title'', JString ''Phish''), (''severity'', JString ''High'')])]\<close>
  let ?props = "JObject [(''title'', JString ''Phish''), (''severity'', JString ''High'')]"
  have ne: "''error'' \<notin> fst ` set ?inc" "''7'' \<noteq> []" by simp_all
  have et: \<open>lookup ?inc ''etag'' = Some (JString ''"e1"'') \<or>
             lookup ?inc ''etag'' = None \<and> ''"e1"'' = []\<close> by simp
  have pr: "lookup ?inc ''properties'' = Some ?props"
    "subscript ?props ''title'' = Inr (JString ''Phish'')"
    "subscript ?props ''severity'' = Inr (JString ''High'')" by simp_all
  from close_incident_put[OF mock_get_incident mock_incident_loaded ne(1)
      close_kwargs_items(7) ne(2) close_kwargs_items(8,9,4,5,6) et pr,
      of "''FalsePositive-InaccurateData''"]
  obtain h where "trace (snd (close_incident mock_env
       (close_kwargs ''FalsePositive-InaccurateData'') fresh)) =
     trace mock_fetched @
     [mk_request PUT (incident_url ''sub'' ''rg'' ''ws'' ''7'') [(''api-version'', ''2020-01-01'')] [] []
        (Some (close_data (strip_char (CHR 0x22) [CHR 0x22, CHR ''e'', CHR ''1'', CHR 0x22])
                 (JString ''Phish'') (JString ''High'')
                 (strip (takeWhile (\<lambda>x. x \<noteq> CHR ''-'') ''FalsePositive-InaccurateData''))
                 ''benign''
                 (map strip (split (CHR ''-'') ''FalsePositive-InaccurateData''))))
        h]"
    by auto
  then show ?thesis
    by (simp add: mk_request_def close_data_def payload_properties_def strip_char_def strip_def
        is_space_def)
qed

text \<open>
  C9, amended: the PUT goes to the incident's URL; the payload's \<^verbatim>\<open>properties\<close> carry
  the \<^verbatim>\<open>title\<close> and \<^verbatim>\<open>severity\<close> of the fetched incident's \<^verbatim>\<open>properties\<close>, \<^verbatim>\<open>status\<close>
  \<^verbatim>\<open>Closed\<close> and \<^verbatim>\<open>classificationComment\<close> equal to \<^verbatim>\<open>close_comment\<close>; the etag is a
  top-level key of the payload, the fetched incident's etag (the empty string when it has
  none) with its leading and trailing double quotes removed.
\<close>

theorem close_incident_payload:
  assumes "get_incident env kw st = (Inr fetched, st1)"
    and "json_loads env fetched = Some (JObject inc)" "''error'' \<notin> fst ` set inc"
    and "kw ''incident_id'' = Some i" "i \<noteq> []" "kw ''close_reason'' = Some reason"
      "kw ''close_comment'' = Some comment" "kw ''subscription_id'' = Some sub"
      "kw ''resource_group_name'' = Some rg" "kw ''workspace_name'' = Some ws"
    and "lookup inc ''etag'' = Some (JString etag) \<or> lookup inc ''etag'' = None \<and> etag = []"
    and "lookup inc ''properties'' = Some props" "subscript props ''title'' = Inr title"
      "subscript props ''severity'' = Inr severity"
  shows "\<exists>req top ps.
           trace (snd (close_incident env kw st)) = trace st1 @ [req] \<and> verb req = PUT \<and>
           target req = incident_url sub rg ws i \<and>
           json_payload req = Some (JObject top) \<and>
           lookup top ''etag'' = Some (JString (strip_char (CHR 0x22) etag)) \<and>
           lookup top ''properties'' = Some (JObject ps) \<and>
           lookup ps ''title'' = Some title \<and>
           lookup ps ''severity'' = Some severity \<and>
           lookup ps ''status'' = Some (JString ''Closed'') \<and>
           lookup ps ''classificationComment'' = Some (JString comment) \<and>
           lookup ps ''etag'' = None"
proof -
  let ?cr = "map strip (split (CHR ''-'') reason)"
  let ?cls = "strip (takeWhile (\<lambda>x. x \<noteq> CHR ''-'') reason)"
  from close_incident_put[OF assms] obtain h where
    tr: "trace (snd (close_incident env kw st)) =
           trace st1 @
           [mk_request PUT (incident_url sub rg ws i) [(''api-version'', ''2020-01-01'')] [] []
              (Some (close_data (strip_char (CHR 0x22) etag) title severity ?cls comment ?cr)) h]"
    by blast
  let ?req = "mk_request PUT (incident_url sub rg ws i) [(''api-version'', ''2020-01-01'')] [] []
              (Some (close_data (strip_char (CHR 0x22) etag) title severity ?cls comment ?cr)) h"
  let ?base = "[(''title'', title), (''status'', JString ''Closed''), (''severity'', severity),
                (''classification'', JString ?cls),
                (''classificationComment'', JString comment)]"
  let ?ps = "if length ?cr > 1 then ?base @ [(''classificationReason'', JString (?cr ! 1))]
             else ?base"
  let ?top = "[(''etag'', JString (strip_char (CHR 0x22) etag)), (''properties'', JObject ?ps)]"
  have "verb ?req = PUT" "target ?req = incident_url sub rg ws i"
    "json_payload ?req = Some (JObject ?top)"
    by (simp_all add: mk_request_def close_data_def)
  moreover have "lookup ?top ''etag'' = Some (JString (strip_char (CHR 0x22) etag))"
    "lookup ?top ''properties'' = Some (JObject ?ps)"
    by simp_all
  moreover have "lookup ?ps ''title'' = Some title" "lookup ?ps ''severity'' = Some severity"
    "lookup ?ps ''status'' = Some (JString ''Closed'')"
    "lookup ?ps ''classificationComment'' = Some (JString comment)"
    "lookup ?ps ''etag'' = None"
    by simp_all
  ultimately show ?thesis using tr by blast
qed

theorem close_incident_payload_witness:
  "\<exists>req top ps.
      trace (snd (close_incident mock_env (close_kwargs ''FalsePositive-InaccurateData'') fresh))
        = trace mock_fetched @ [req] \<and> verb req = PUT \<and>
      target req = incident_url ''sub'' ''rg'' ''ws'' ''7'' \<and>
      json_payload req = Some (JObject top) \<and>
      lookup top ''etag'' = Some (JString ''e1'') \<and>
      lookup top ''properties'' = Some (JObject ps) \<and>
      lookup ps ''title'' = Some (JString ''Phish'') \<and>
      lookup ps ''severity'' = Some (JString ''High'') \<and>
      lookup ps ''status'' = Some (JString ''Closed'') \<and>
      lookup ps ''classificationComment'' = Some (JString ''benign'') \<and>
      lookup ps ''etag'' = None"
proof -
  let ?inc = \<open>[(''id'', JString ''/i/7''), (''etag'', JString ''"e1"''),
               (''properties'',
                JObject [(''title'', JString ''Phish''), (''severity'', JString ''High'')])]\<close>
  let ?props = "JObject [(''title'', JString ''Phish''), (''severity'', JString ''High'')]"
  have ne: "''error'' \<notin> fst ` set ?inc" "''7'' \<noteq> []" by simp_all
  have et: \<open>lookup ?inc ''etag'' = Some (JString ''"e1"'') \<or>
             lookup ?inc ''etag'' = None \<and> ''"e1"'' = []\<close> by simp
  have pr: "lookup ?inc ''properties'' = Some ?props"
    "subscript ?props ''title'' = Inr (JString ''Phish'')"
    "subscript ?props ''severity'' = Inr (JString ''High'')" by simp_all
  have s: \<open>strip_char (CHR 0x22) ''"e1"'' = ''e1''\<close> by (simp add: strip_char_def)
  from close_incident_payload[OF mock_get_incident mock_incident_loaded ne(1)
      close_kwargs_items(7) ne(2) close_kwargs_items(8,9,4,5,6) et pr,
      of "''FalsePositive-InaccurateData''"]
  show ?thesis unfolding s .
qed

end
